theory Spec2Isabelle
  imports Complex_Main
begin

section \<open>The Bluesky listener (listeners/bluesky/main.py)\<close>

text \<open>
  The worker fetches a roster of authors from a control API, opens a websocket
  subscription for their keys, filters every inbound message and posts a trigger for each
  new post of a known author. The network is the environment of the model: the answer to
  the roster request, the sessions of the websocket and the answer to each trigger request
  are inputs, and everything the worker does that is visible outside (connections, trigger
  requests, sleeps, log entries) is an event of the trace it returns.
\<close>

subsection \<open>JSON values with Python's view of them\<close>

text \<open>
  What \<open>json.loads\<close> and \<open>response.json()\<close> return. \<open>JFloat r\<close> is a finite float of
  exact value \<open>r\<close>; the literals NaN and Infinity, which Python's decoder accepts beyond the
  JSON standard, are not modelled. \<open>JObj kvs\<close> is the dict whose value at \<open>k\<close> is
  \<open>map_of kvs k\<close>.
\<close>

datatype json =
    JNull
  | JBool bool
  | JInt int
  | JFloat real
  | JStr string
  | JArr "json list"
  | JObj "(string \<times> json) list"

text \<open>
  The exception classes the handlers of the source tell apart; each constructor stands
  for the class and its subclasses. \<open>websockets.exceptions.ConnectionClosed\<close> has two
  subclasses, and the library raises one of them: \<open>ConnectionClosedOK\<close> when the
  connection was closed properly (close code 1000 or 1001), \<open>ConnectionClosedError\<close>
  when it was closed with another code or lost without a closing handshake.
  \<open>OtherException\<close> is any other subclass of \<open>Exception\<close>. \<open>CancelledError\<close>
  stands for the exceptions that derive from \<open>BaseException\<close> only (task cancellation,
  keyboard interrupt): no \<open>except Exception\<close> clause catches them.
\<close>

datatype exn =
    JSONDecodeError
  | AttributeError
  | TypeError
  | HTTPStatusError
  | RequestError
  | ConnectionClosedOK
  | ConnectionClosedError
  | OtherException
  | CancelledError

definition is_Exception :: "exn \<Rightarrow> bool" where
  "is_Exception e = (e \<noteq> CancelledError)"

text \<open>What \<open>except websockets.exceptions.ConnectionClosed\<close> catches.\<close>

definition is_ConnectionClosed :: "exn \<Rightarrow> bool" where
  "is_ConnectionClosed e = (e = ConnectionClosedOK \<or> e = ConnectionClosedError)"

text \<open>Python's truth value of a decoded JSON value (\<open>if x:\<close>, \<open>not x\<close>, \<open>x and y\<close>).\<close>

fun truthy :: "json \<Rightarrow> bool" where
  "truthy JNull = False"
| "truthy (JBool b) = b"
| "truthy (JInt n) = (n \<noteq> 0)"
| "truthy (JFloat r) = (r \<noteq> 0)"
| "truthy (JStr s) = (s \<noteq> [])"
| "truthy (JArr xs) = (xs \<noteq> [])"
| "truthy (JObj kvs) = (kvs \<noteq> [])"

text \<open>\<open>d.get(k, default)\<close> on the contents of a dict.\<close>

definition dict_get :: "(string \<times> json) list \<Rightarrow> string \<Rightarrow> json \<Rightarrow> json" where
  "dict_get kvs k d = (case map_of kvs k of None \<Rightarrow> d | Some v \<Rightarrow> v)"

text \<open>
  \<open>x.get(k, default)\<close> on any decoded value: only a dict has the method, every other
  value raises AttributeError.
\<close>

fun py_get :: "json \<Rightarrow> string \<Rightarrow> json \<Rightarrow> exn + json" where
  "py_get (JObj kvs) k d = Inr (dict_get kvs k d)"
| "py_get _ k d = Inl AttributeError"

text \<open>
  Keys of a Python dict. Lists and dicts are unhashable (TypeError). Equal keys are one
  key: \<open>True == 1 == 1.0\<close> and \<open>False == 0\<close>, so the numbers and booleans are keyed by
  their numeric value.
\<close>

datatype pykey = KNone | KNum real | KStr string

fun py_hashkey :: "json \<Rightarrow> exn + pykey" where
  "py_hashkey JNull = Inr KNone"
| "py_hashkey (JBool b) = Inr (KNum (if b then 1 else 0))"
| "py_hashkey (JInt n) = Inr (KNum (real_of_int n))"
| "py_hashkey (JFloat r) = Inr (KNum r)"
| "py_hashkey (JStr s) = Inr (KStr s)"
| "py_hashkey (JArr xs) = Inl TypeError"
| "py_hashkey (JObj kvs) = Inl TypeError"

text \<open>
  \<open>x[:100]\<close>: strings and lists can be sliced, None, booleans and numbers are not
  subscriptable (TypeError), and a dict rejects a slice as a key (TypeError, KeyError from
  CPython 3.12 on: the same handler catches both).
\<close>

fun py_slice100 :: "json \<Rightarrow> exn + json" where
  "py_slice100 (JStr s) = Inr (JStr (take 100 s))"
| "py_slice100 (JArr xs) = Inr (JArr (take 100 xs))"
| "py_slice100 _ = Inl TypeError"

text \<open>
  \<open>for x in v\<close>: a list gives its elements, a dict its keys, a string its characters;
  None, booleans and numbers are not iterable (TypeError).
\<close>

fun py_iter :: "json \<Rightarrow> exn + json list" where
  "py_iter (JArr xs) = Inr xs"
| "py_iter (JObj kvs) = Inr (map (\<lambda>kv. JStr (fst kv)) kvs)"
| "py_iter (JStr s) = Inr (map (\<lambda>c. JStr [c]) s)"
| "py_iter _ = Inl TypeError"

subsection \<open>Roster, payload, events\<close>

text \<open>
  \<open>SUBSCRIBED_AUTHORS_DATA\<close>: a dict from platform id to the dict
  \<open>{'id', 'name', 'author_context'}\<close> of the author.
\<close>

type_synonym roster = "pykey \<Rightarrow> (string \<times> json) list option"

record trigger_payload =
  tweet_author_id :: json
  tweet_content :: json

datatype level = INFO | WARNING | ERROR

text \<open>
  What the worker does that can be observed: a log entry (level and the fixed part of
  the message), a websocket connection opened for a list of keys (one \<open>wantedDids\<close>
  parameter each, in order), a POST to \<open>process-tweet/trigger-workflow\<close>, and a sleep of
  so many seconds.
\<close>

datatype event =
    Log level string
  | Connect "json list"
  | Post trigger_payload
  | Sleep nat

subsection \<open>fetch_subscribed_authors\<close>

text \<open>
  The answer of the control API to the GET: the request, \<open>raise_for_status\<close> or
  \<open>response.json()\<close> raises, or the body decodes to a JSON value.
\<close>

datatype fetch_response = ResponseRaises exn | ResponseJson json

text \<open>The dict stored for an author (lines 50 to 54); a missing field is None.\<close>

definition author_record :: "(string \<times> json) list \<Rightarrow> (string \<times> json) list" where
  "author_record author =
     [(''id'', dict_get author ''id'' JNull),
      (''name'', dict_get author ''name'' JNull),
      (''author_context'', dict_get author ''author_context'' JNull)]"

text \<open>
  The loop over the authors (lines 46 to 54): the roster and the key list so far, then
  the elements left. An element that is not a dict has no \<open>get\<close>; a truthy platform id
  that cannot be hashed fails at the store. The roster filled so far stays as it is when
  an element raises.
\<close>

fun fill_roster :: "roster \<Rightarrow> json list \<Rightarrow> json list \<Rightarrow> roster \<times> (exn + json list)" where
  "fill_roster m bsky_dids [] = (m, Inr bsky_dids)"
| "fill_roster m bsky_dids (JObj author # rest) =
     (let did = dict_get author ''platform_id'' JNull in
      if truthy did then
        (case py_hashkey did of
           Inl e \<Rightarrow> (m, Inl e)
         | Inr k \<Rightarrow>
             fill_roster (m(k \<mapsto> author_record author)) (bsky_dids @ [did]) rest)
      else fill_roster m bsky_dids rest)"
| "fill_roster m bsky_dids (_ # rest) = (m, Inl AttributeError)"

text \<open>The body of the try block (lines 34 to 56): new roster, log entries, result.\<close>

definition fetch_body :: "roster \<Rightarrow> fetch_response \<Rightarrow> roster \<times> event list \<times> (exn + json list)" where
  "fetch_body m resp =
     (case resp of
        ResponseRaises e \<Rightarrow> (m, [], Inl e)
      | ResponseJson authors \<Rightarrow>
          if \<not> truthy authors then (m, [Log WARNING ''API returned no authors.''], Inr [])
          else
            (case py_iter authors of
               Inl e \<Rightarrow> (Map.empty, [], Inl e)
             | Inr items \<Rightarrow>
                 (case fill_roster Map.empty [] items of
                    (m', Inl e) \<Rightarrow> (m', [], Inl e)
                  | (m', Inr bsky_dids) \<Rightarrow>
                      (m', [Log INFO ''Successfully fetched authors.''], Inr bsky_dids))))"

text \<open>
  The function with its handlers (lines 57 to 63): every \<open>Exception\<close> is logged and
  the function returns the empty list; anything else propagates.
\<close>

definition fetch_subscribed_authors ::
  "roster \<Rightarrow> fetch_response \<Rightarrow> roster \<times> event list \<times> (exn + json list)" where
  "fetch_subscribed_authors m resp =
     (case fetch_body m resp of
        (m', tr, Inr bsky_dids) \<Rightarrow> (m', Log INFO ''Fetching authors from API'' # tr, Inr bsky_dids)
      | (m', tr, Inl e) \<Rightarrow>
          if e = RequestError then
            (m', Log INFO ''Fetching authors from API'' # tr @
                 [Log ERROR ''Error fetching authors from API''], Inr [])
          else if e = JSONDecodeError then
            (m', Log INFO ''Fetching authors from API'' # tr @
                 [Log ERROR ''Failed to decode JSON response from API.''], Inr [])
          else if is_Exception e then
            (m', Log INFO ''Fetching authors from API'' # tr @
                 [Log ERROR ''An unexpected error occurred during author fetch''], Inr [])
          else (m', Log INFO ''Fetching authors from API'' # tr, Inl e))"

subsection \<open>The dispatcher: one inbound message\<close>

text \<open>Lines 90 and 91: the author's dict (or the empty dict) and its id (or None).\<close>

definition lookup_author_id :: "roster \<Rightarrow> json \<Rightarrow> exn + json" where
  "lookup_author_id m did =
     (case py_hashkey did of
        Inl e \<Rightarrow> Inl e
      | Inr k \<Rightarrow>
          (let author_info = (case m k of None \<Rightarrow> [] | Some info \<Rightarrow> info)
           in Inr (dict_get author_info ''id'' JNull)))"

text \<open>
  Lines 86 to 104, from the decoded message to the decision to post: an exception, or
  the log entries and the payload to post (None when a filter rejects the message).
  Nothing is logged before the last point where an exception can be raised.
\<close>

definition dispatch :: "roster \<Rightarrow> json \<Rightarrow> exn + event list \<times> trigger_payload option" where
  "dispatch m data =
     (case py_get data ''kind'' JNull of
        Inl e \<Rightarrow> Inl e
      | Inr kind \<Rightarrow>
        if kind \<noteq> JStr ''commit'' then Inr ([], None)
        else
     (case py_get data ''commit'' (JObj []) of
        Inl e \<Rightarrow> Inl e
      | Inr commit \<Rightarrow>
     (case py_get commit ''operation'' JNull of
        Inl e \<Rightarrow> Inl e
      | Inr operation \<Rightarrow>
        if operation \<noteq> JStr ''create'' then Inr ([], None)
        else
     (case py_get data ''did'' JNull of
        Inl e \<Rightarrow> Inl e
      | Inr did \<Rightarrow>
     (case lookup_author_id m did of
        Inl e \<Rightarrow> Inl e
      | Inr author_id \<Rightarrow>
     (case py_get commit ''collection'' (JStr ''N/A'') of
        Inl e \<Rightarrow> Inl e
      | Inr collection \<Rightarrow>
        if collection \<noteq> JStr ''app.bsky.feed.post'' then Inr ([], None)
        else
     (case py_get commit ''record'' (JObj []) of
        Inl e \<Rightarrow> Inl e
      | Inr record \<Rightarrow>
     (case py_get record ''text'' (JStr []) of
        Inl e \<Rightarrow> Inl e
      | Inr post_text \<Rightarrow>
     (case py_slice100 post_text of
        Inl e \<Rightarrow> Inl e
      | Inr shown \<Rightarrow>
          Inr ([Log INFO ''New Post from author''],
               if truthy author_id \<and> truthy post_text
               then Some \<lparr>tweet_author_id = author_id, tweet_content = post_text\<rparr>
               else None))))))))))"

text \<open>
  Lines 109 to 118: the POST and its two handlers. The second argument is what the
  request does: None when it returns and \<open>raise_for_status\<close> passes, or the exception
  raised.
\<close>

definition forward :: "trigger_payload \<Rightarrow> exn option \<Rightarrow> event list \<times> exn option" where
  "forward payload answer =
     (case answer of
        None \<Rightarrow>
          ([Log INFO ''Sending post to workflow API'', Post payload,
            Log INFO ''Successfully triggered workflow.''], None)
      | Some e \<Rightarrow>
          if e = HTTPStatusError then
            ([Log INFO ''Sending post to workflow API'', Post payload,
              Log ERROR ''API request failed with status''], None)
          else if e = RequestError then
            ([Log INFO ''Sending post to workflow API'', Post payload,
              Log ERROR ''An error occurred while calling the workflow API''], None)
          else ([Log INFO ''Sending post to workflow API'', Post payload], Some e))"

text \<open>
  An inbound message as the environment gives it: what \<open>json.loads\<close> does with it, and
  what the trigger request does if the worker makes one for this message.
\<close>

record inbound =
  decoded :: "exn + json"
  post_answer :: "exn option"

text \<open>The body of the per-message try block (lines 85 to 118).\<close>

definition process_message :: "roster \<Rightarrow> inbound \<Rightarrow> event list \<times> exn option" where
  "process_message m msg =
     (case decoded msg of
        Inl e \<Rightarrow> ([], Some e)
      | Inr data \<Rightarrow>
          (case dispatch m data of
             Inl e \<Rightarrow> ([], Some e)
           | Inr (tr, None) \<Rightarrow> (tr, None)
           | Inr (tr, Some payload) \<Rightarrow>
               (case forward payload (post_answer msg) of (tr', r) \<Rightarrow> (tr @ tr', r))))"

text \<open>The per-message try block with its handlers (lines 84 to 123).\<close>

definition handle_message :: "roster \<Rightarrow> inbound \<Rightarrow> event list \<times> exn option" where
  "handle_message m msg =
     (case process_message m msg of
        (tr, None) \<Rightarrow> (tr, None)
      | (tr, Some e) \<Rightarrow>
          if e = JSONDecodeError then
            (tr @ [Log WARNING ''Could not decode JSON from websocket message.''], None)
          else if is_Exception e then
            (tr @ [Log ERROR ''An error occurred while processing a message''], None)
          else (tr, Some e))"

text \<open>
  \<open>async for message in websocket\<close> over the messages a connection delivers: the
  loop stops early only when an exception leaves a message's handlers.
\<close>

fun message_loop :: "roster \<Rightarrow> inbound list \<Rightarrow> event list \<times> exn option" where
  "message_loop m [] = ([], None)"
| "message_loop m (msg # rest) =
     (case handle_message m msg of
        (tr, Some e) \<Rightarrow> (tr, Some e)
      | (tr, None) \<Rightarrow> (case message_loop m rest of (tr', r) \<Rightarrow> (tr @ tr', r)))"

subsection \<open>websocket_client and main\<close>

text \<open>
  One pass of the \<open>while True\<close> loop as the environment shapes it: the connection
  attempt raises, or the connection delivers messages and then ends, either by the
  iteration ending normally (the library ends \<open>async for\<close> so when the connection is
  closed properly) or by an exception raised in it.
\<close>

datatype stream_end = EndOfStream | StreamRaises exn

datatype session = ConnectRaises exn | Connected "inbound list" stream_end

text \<open>The body of the outer try block (lines 81 to 123).\<close>

definition run_session :: "roster \<Rightarrow> json list \<Rightarrow> session \<Rightarrow> event list \<times> exn option" where
  "run_session m subscribed_dids s =
     (case s of
        ConnectRaises e \<Rightarrow> ([Connect subscribed_dids], Some e)
      | Connected msgs fin \<Rightarrow>
          (case message_loop m msgs of
             (tr, Some e) \<Rightarrow>
               (Connect subscribed_dids # Log INFO ''Worker connected to WebSocket.'' # tr, Some e)
           | (tr, None) \<Rightarrow>
               (Connect subscribed_dids # Log INFO ''Worker connected to WebSocket.'' # tr,
                case fin of EndOfStream \<Rightarrow> None | StreamRaises e \<Rightarrow> Some e)))"

text \<open>
  The handlers of the outer try block and the sleep after it (lines 125 to 131), given
  how the body ended: the events before the next pass, or the exception when no handler
  catches it.
\<close>

definition on_disconnect :: "exn option \<Rightarrow> exn + event list" where
  "on_disconnect r =
     (case r of
        None \<Rightarrow> Inr [Sleep 5]
      | Some e \<Rightarrow>
          if is_ConnectionClosed e then
            Inr [Log WARNING ''WebSocket connection closed. Reconnecting in 5 seconds...'', Sleep 5]
          else if is_Exception e then
            Inr [Log ERROR ''An error occurred in websocket client. Reconnecting in 15 seconds...'',
                 Sleep 10, Sleep 5]
          else Inl e)"

text \<open>
  How a run is observed: the function returned, an exception left it, or it is still in
  its loop when the sessions given by the environment are used up.
\<close>

datatype outcome = Returned | Raised exn | Running

text \<open>The \<open>while True\<close> loop (lines 79 to 131) over the sessions of the environment.\<close>

fun client_loop :: "roster \<Rightarrow> json list \<Rightarrow> session list \<Rightarrow> event list \<times> outcome" where
  "client_loop m subscribed_dids [] = ([], Running)"
| "client_loop m subscribed_dids (s # ss) =
     (case run_session m subscribed_dids s of
        (tr, r) \<Rightarrow>
          (case on_disconnect r of
             Inl e \<Rightarrow> (tr, Raised e)
           | Inr tr' \<Rightarrow>
               (case client_loop m subscribed_dids ss of (tr'', out) \<Rightarrow> (tr @ tr' @ tr'', out))))"

definition websocket_client :: "roster \<Rightarrow> json list \<Rightarrow> session list \<Rightarrow> event list \<times> outcome" where
  "websocket_client m subscribed_dids sessions =
     (if subscribed_dids = [] then
        ([Log WARNING ''No authors to subscribe to. Websocket client will not start.''], Returned)
      else client_loop m subscribed_dids sessions)"

text \<open>
  \<open>main\<close>, started with the empty roster of line 22: the roster after the fetch, the
  trace and how the run ended.
\<close>

definition main :: "fetch_response \<Rightarrow> session list \<Rightarrow> roster \<times> event list \<times> outcome" where
  "main resp sessions =
     (case fetch_subscribed_authors Map.empty resp of
        (m, tr, Inl e) \<Rightarrow> (m, Log INFO ''Worker process starting...'' # tr, Raised e)
      | (m, tr, Inr subscribed_dids) \<Rightarrow>
          (case websocket_client m subscribed_dids sessions of
             (tr', out) \<Rightarrow> (m, Log INFO ''Worker process starting...'' # tr @ tr', out)))"

subsection \<open>Reading a trace\<close>

fun forward_calls :: "event list \<Rightarrow> trigger_payload list" where
  "forward_calls [] = []"
| "forward_calls (Post p # evs) = p # forward_calls evs"
| "forward_calls (_ # evs) = forward_calls evs"

fun connections :: "event list \<Rightarrow> json list list" where
  "connections [] = []"
| "connections (Connect ds # evs) = ds # connections evs"
| "connections (_ # evs) = connections evs"


subsection \<open>The stream event and the scenario of the specification\<close>

text \<open>
  The fields of a stream event, read from a decoded message of the shape
  \<open>{kind, did, commit: {operation, collection, record: {text}}}\<close>: None when the
  message has no such field.
\<close>

definition msg_field :: "json \<Rightarrow> string \<Rightarrow> json option" where
  "msg_field v k = (case v of JObj kvs \<Rightarrow> map_of kvs k | _ \<Rightarrow> None)"

definition event_kind :: "json \<Rightarrow> json option" where
  "event_kind data = msg_field data ''kind''"

definition event_operation :: "json \<Rightarrow> json option" where
  "event_operation data =
     (case msg_field data ''commit'' of
        None \<Rightarrow> None
      | Some commit \<Rightarrow> msg_field commit ''operation'')"

definition event_collection :: "json \<Rightarrow> json option" where
  "event_collection data =
     (case msg_field data ''commit'' of
        None \<Rightarrow> None
      | Some commit \<Rightarrow> msg_field commit ''collection'')"



text \<open>The roster and the message of the scenarios, the operation left open.\<close>

definition scenario_roster :: roster where
  "scenario_roster =
     [KStr ''did:abc'' \<mapsto> [(''id'', JInt 42), (''name'', JStr ''A''), (''author_context'', JNull)]]"

definition scenario_message :: "string \<Rightarrow> json" where
  "scenario_message operation =
     JObj [(''kind'', JStr ''commit''), (''did'', JStr ''did:abc''),
           (''commit'', JObj [(''operation'', JStr operation),
                              (''collection'', JStr ''app.bsky.feed.post''),
                              (''record'', JObj [(''text'', JStr ''hello'')])])]"

subsection \<open>The entries of a roster answer\<close>

text \<open>
  What the loop of \<open>fetch_subscribed_authors\<close> reads from one element of the answer:
  its platform id (None when absent), the key it is stored under (None when the element is
  skipped or cannot be stored), the record stored for it, and whether the loop body runs
  through for it (it is a dict, and its platform id is falsy or hashable).
\<close>

definition platform_id_of :: "json \<Rightarrow> json" where
  "platform_id_of a = (case a of JObj author \<Rightarrow> dict_get author ''platform_id'' JNull | _ \<Rightarrow> JNull)"

definition entry_key :: "json \<Rightarrow> pykey option" where
  "entry_key a =
     (if truthy (platform_id_of a) then
        (case py_hashkey (platform_id_of a) of Inl e \<Rightarrow> None | Inr k \<Rightarrow> Some k)
      else None)"

definition record_of :: "json \<Rightarrow> (string \<times> json) list" where
  "record_of a = (case a of JObj author \<Rightarrow> author_record author | _ \<Rightarrow> [])"

definition storable :: "json \<Rightarrow> bool" where
  "storable a =
     (case a of
        JObj author \<Rightarrow>
          (if truthy (platform_id_of a) then
             (case py_hashkey (platform_id_of a) of Inl e \<Rightarrow> False | Inr k \<Rightarrow> True)
           else True)
      | _ \<Rightarrow> False)"

text \<open>
  The roster that holds, for every key, the record of the last element stored under
  that key, and nothing else.
\<close>

definition latest_record :: "json list \<Rightarrow> roster" where
  "latest_record items k =
     (case filter (\<lambda>a. entry_key a = Some k) items of
        [] \<Rightarrow> None
      | a # as \<Rightarrow> Some (record_of (last (a # as))))"

text \<open>
  A roster answer with a null element between two authors, and one with a skipped
  element and the same platform id twice.
\<close>

definition broken_answer :: "json list" where
  "broken_answer =
     [JObj [(''platform_id'', JStr ''did:new''), (''id'', JInt 7), (''name'', JStr ''N''),
            (''author_context'', JNull)],
      JNull,
      JObj [(''platform_id'', JStr ''did:late''), (''id'', JInt 8), (''name'', JStr ''L''),
            (''author_context'', JNull)]]"

definition repeated_answer :: "json list" where
  "repeated_answer =
     [JObj [(''platform_id'', JStr ''did:abc''), (''id'', JInt 1), (''name'', JStr ''A'')],
      JObj [(''id'', JInt 9), (''name'', JStr ''nobody'')],
      JObj [(''platform_id'', JStr []), (''id'', JInt 5)],
      JObj [(''platform_id'', JStr ''did:abc''), (''id'', JInt 2), (''name'', JStr ''B'')]]"

text \<open>A roster answer with the same platform id twice and then a null element.\<close>

definition repeated_broken_answer :: "json list" where
  "repeated_broken_answer =
     [JObj [(''platform_id'', JStr ''did:dup''), (''id'', JInt 1), (''name'', JStr ''A'')],
      JObj [(''platform_id'', JStr ''did:dup''), (''id'', JInt 2), (''name'', JStr ''B'')],
      JNull]"

section \<open>Properties of the dispatcher\<close>

lemma forward_calls_append: "forward_calls (xs @ ys) = forward_calls xs @ forward_calls ys"
  by (induction xs rule: forward_calls.induct) simp_all

lemma forward_calls_forward: "forward_calls (fst (forward p a)) = [p]"
  by (simp add: forward_def split: option.splits)



text \<open>A message that one of the three filters rejects leads to no payload.\<close>

lemma dispatch_no_match:
  assumes "event_kind data \<noteq> Some (JStr ''commit'')
         \<or> event_operation data \<noteq> Some (JStr ''create'')
         \<or> event_collection data \<noteq> Some (JStr ''app.bsky.feed.post'')"
    and "dispatch m data = Inr (tr, p)"
  shows "p = None"
  using assms
  by (cases data)
     (auto simp: dispatch_def event_kind_def event_operation_def event_collection_def
        msg_field_def dict_get_def
        split: sum.splits if_splits option.splits json.splits)

lemma dispatch_logs_no_post: "dispatch m data = Inr (tr, p) \<Longrightarrow> forward_calls tr = []"
  by (auto simp: dispatch_def split: sum.splits if_splits)


lemma handle_message_no_post:
  "dispatch m data = Inr (tr, None) \<Longrightarrow>
   handle_message m \<lparr>decoded = Inr data, post_answer = a\<rparr> = (tr, None)"
  by (simp add: handle_message_def process_message_def)

lemma dispatch_raises_no_post:
  "dispatch m data = Inl e \<Longrightarrow>
   forward_calls (fst (handle_message m \<lparr>decoded = Inr data, post_answer = a\<rparr>)) = []"
  by (simp add: handle_message_def process_message_def)



text \<open>
  C2. A decoded message whose kind is not commit, or whose operation is not create, or
  whose collection is not \<open>app.bsky.feed.post\<close>, leads to no trigger request.
\<close>

theorem unmatched_message_not_forwarded:
  assumes "event_kind data \<noteq> Some (JStr ''commit'')
         \<or> event_operation data \<noteq> Some (JStr ''create'')
         \<or> event_collection data \<noteq> Some (JStr ''app.bsky.feed.post'')"
  shows "forward_calls (fst (handle_message m \<lparr>decoded = Inr data, post_answer = a\<rparr>)) = []"
proof (cases "dispatch m data")
  case (Inl e)
  then show ?thesis by (rule dispatch_raises_no_post)
next
  case (Inr r)
  obtain tr p where "r = (tr, p)" by (cases r)
  with Inr have d: "dispatch m data = Inr (tr, p)" by simp
  from dispatch_no_match[OF assms d] have "p = None" .
  with d handle_message_no_post[of m data tr a] dispatch_logs_no_post[OF d]
  show ?thesis by simp
qed

text \<open>The scenario with the operation "update".\<close>

theorem unmatched_message_not_forwarded_witness:
  "event_operation (scenario_message ''update'') \<noteq> Some (JStr ''create'') \<and>
   forward_calls (fst (handle_message scenario_roster
       \<lparr>decoded = Inr (scenario_message ''update''), post_answer = None\<rparr>)) = []"
  using unmatched_message_not_forwarded[of "scenario_message ''update''" scenario_roster None]
  by (simp add: scenario_message_def event_operation_def msg_field_def)




lemma py_hashkey_raises: "py_hashkey v = Inl e \<Longrightarrow> e = TypeError"
  by (cases v) simp_all





text \<open>A message whose handlers let nothing out leaves the loop and the session going.\<close>

lemma message_loop_step:
  "snd (handle_message m msg) = None \<Longrightarrow>
   message_loop m (msg # rest) =
     (fst (handle_message m msg) @ fst (message_loop m rest), snd (message_loop m rest))"
  by (cases "handle_message m msg"; cases "message_loop m rest") simp

lemma run_session_step:
  "snd (handle_message m msg) = None \<Longrightarrow>
   snd (run_session m dids (Connected (msg # rest) fin)) =
   snd (run_session m dids (Connected rest fin))"
  by (cases "handle_message m msg"; cases "message_loop m rest")
     (auto simp: run_session_def split: option.splits)

text \<open>
  C6. When the trigger request made for a message fails with an HTTP status error or a
  transport error, nothing leaves the message's handlers: the trace of the message ends
  with an error log entry, the request was made exactly once (no retry), the messages
  after it are processed as they would be on their own, and the session ends as it would
  have without the message.
\<close>

theorem forward_failure_contained:
  assumes "decoded msg = Inr data"
    and "dispatch m data = Inr (tr, Some payload)"
    and "post_answer msg = Some e"
    and "e = HTTPStatusError \<or> e = RequestError"
  shows "snd (handle_message m msg) = None
       \<and> (\<exists>entry. fst (handle_message m msg) =
             tr @ [Log INFO ''Sending post to workflow API'', Post payload, Log ERROR entry])
       \<and> forward_calls (fst (handle_message m msg)) = [payload]
       \<and> message_loop m (msg # rest) =
           (fst (handle_message m msg) @ fst (message_loop m rest), snd (message_loop m rest))
       \<and> snd (run_session m dids (Connected (msg # rest) fin)) =
           snd (run_session m dids (Connected rest fin))"
proof -
  have h: "handle_message m msg =
        (tr @ [Log INFO ''Sending post to workflow API'', Post payload,
               Log ERROR (if e = HTTPStatusError then ''API request failed with status''
                          else ''An error occurred while calling the workflow API'')], None)"
    using assms by (auto simp: handle_message_def process_message_def forward_def)
  then have n: "snd (handle_message m msg) = None" by simp
  have f: "forward_calls (fst (handle_message m msg)) = [payload]"
    using h dispatch_logs_no_post[OF assms(2)] by (simp add: forward_calls_append)
  from h n f message_loop_step[OF n] run_session_step[OF n] show ?thesis by simp
qed

text \<open>The scenario message twice; the first trigger request fails with a status error.\<close>

theorem forward_failure_contained_witness:
  "snd (handle_message scenario_roster
      \<lparr>decoded = Inr (scenario_message ''create''), post_answer = Some HTTPStatusError\<rparr>) = None
   \<and> forward_calls (fst (message_loop scenario_roster
      [\<lparr>decoded = Inr (scenario_message ''create''), post_answer = Some HTTPStatusError\<rparr>,
       \<lparr>decoded = Inr (scenario_message ''create''), post_answer = None\<rparr>])) =
      [\<lparr>tweet_author_id = JInt 42, tweet_content = JStr ''hello''\<rparr>,
       \<lparr>tweet_author_id = JInt 42, tweet_content = JStr ''hello''\<rparr>]"
  using forward_failure_contained[of
      "\<lparr>decoded = Inr (scenario_message ''create''), post_answer = Some HTTPStatusError\<rparr>"
      "scenario_message ''create''" scenario_roster "[Log INFO ''New Post from author'']"
      "\<lparr>tweet_author_id = JInt 42, tweet_content = JStr ''hello''\<rparr>" HTTPStatusError
      "[\<lparr>decoded = Inr (scenario_message ''create''), post_answer = None\<rparr>]"]
  by (simp add: scenario_message_def scenario_roster_def dispatch_def lookup_author_id_def
      dict_get_def handle_message_def process_message_def forward_def)



section \<open>Properties of the connection loop\<close>


lemma connections_append: "connections (xs @ ys) = connections xs @ connections ys"
  by (induction xs rule: connections.induct) simp_all











section \<open>Properties of the roster fetch and of the start\<close>

lemma connections_fetch:
  "connections (fst (snd (fetch_subscribed_authors m resp))) = []"
  by (auto simp: fetch_subscribed_authors_def fetch_body_def connections_append
      split: fetch_response.splits sum.splits prod.splits)

lemma forward_calls_fetch:
  "forward_calls (fst (snd (fetch_subscribed_authors m resp))) = []"
  by (auto simp: fetch_subscribed_authors_def fetch_body_def forward_calls_append
      split: fetch_response.splits sum.splits prod.splits)

text \<open>
  C5. When the roster fetch returns the empty key list (an empty result or a caught
  failure), \<open>websocket_client\<close> returns at once: no connection is opened and no trigger
  request is made, whatever the stream would have delivered.
\<close>

theorem empty_roster_stays_idle:
  assumes "snd (snd (fetch_subscribed_authors Map.empty resp)) = Inr []"
  shows "snd (snd (main resp sessions)) = Returned
       \<and> connections (fst (snd (main resp sessions))) = []
       \<and> forward_calls (fst (snd (main resp sessions))) = []
       \<and> websocket_client m [] sessions =
           ([Log WARNING ''No authors to subscribe to. Websocket client will not start.''], Returned)"
proof -
  obtain m' tr where f: "fetch_subscribed_authors Map.empty resp = (m', tr, Inr [])"
    using assms by (cases "fetch_subscribed_authors Map.empty resp") auto
  with connections_fetch[of Map.empty resp] forward_calls_fetch[of Map.empty resp]
  show ?thesis
    by (simp add: main_def websocket_client_def connections_append forward_calls_append)
qed

text \<open>The control API answers with the empty array.\<close>

theorem empty_roster_stays_idle_witness:
  "main (ResponseJson (JArr []))
        [Connected [\<lparr>decoded = Inr (scenario_message ''create''), post_answer = None\<rparr>] EndOfStream] =
     (Map.empty,
      [Log INFO ''Worker process starting...'', Log INFO ''Fetching authors from API'',
       Log WARNING ''API returned no authors.'',
       Log WARNING ''No authors to subscribe to. Websocket client will not start.''],
      Returned)"
  using empty_roster_stays_idle[of "ResponseJson (JArr [])"
      "[Connected [\<lparr>decoded = Inr (scenario_message ''create''), post_answer = None\<rparr>] EndOfStream]"]
  by (simp add: main_def fetch_subscribed_authors_def fetch_body_def websocket_client_def)

text \<open>
  C8. When the roster request fails with a transport error or the body fails to decode,
  \<open>fetch_subscribed_authors\<close> returns the empty list (nothing is raised) and leaves
  the roster as it was; \<open>main\<close> goes on with the empty list and returns without a
  connection or a trigger request.
\<close>

theorem failed_fetch_returns_empty:
  assumes "e = RequestError \<or> e = JSONDecodeError"
  shows "(\<exists>tr. fetch_subscribed_authors m (ResponseRaises e) = (m, tr, Inr []))
       \<and> snd (snd (main (ResponseRaises e) sessions)) = Returned
       \<and> connections (fst (snd (main (ResponseRaises e) sessions))) = []
       \<and> forward_calls (fst (snd (main (ResponseRaises e) sessions))) = []"
  using assms
  by (auto simp: fetch_subscribed_authors_def fetch_body_def main_def websocket_client_def)

text \<open>The roster request fails with a transport error.\<close>

theorem failed_fetch_returns_empty_witness:
  "main (ResponseRaises RequestError)
        [Connected [\<lparr>decoded = Inr (scenario_message ''create''), post_answer = None\<rparr>] EndOfStream] =
     (Map.empty,
      [Log INFO ''Worker process starting...'', Log INFO ''Fetching authors from API'',
       Log ERROR ''Error fetching authors from API'',
       Log WARNING ''No authors to subscribe to. Websocket client will not start.''],
      Returned)"
  using failed_fetch_returns_empty[of RequestError Map.empty
      "[Connected [\<lparr>decoded = Inr (scenario_message ''create''), post_answer = None\<rparr>] EndOfStream]"]
  by (simp add: main_def fetch_subscribed_authors_def fetch_body_def websocket_client_def)

section \<open>Properties of the roster load\<close>

text \<open>How \<open>latest_record\<close> grows with one more element in front.\<close>

lemma latest_record_Nil: "latest_record [] = Map.empty"
  by (rule ext) (simp add: latest_record_def)

lemma latest_record_skip: "entry_key a = None \<Longrightarrow> latest_record (a # rest) = latest_record rest"
  by (rule ext) (simp add: latest_record_def)

lemma latest_record_store:
  "entry_key a = Some k \<Longrightarrow> m ++ latest_record (a # rest) = m(k \<mapsto> record_of a) ++ latest_record rest"
  by (rule ext) (auto simp: latest_record_def map_add_def split: list.splits option.splits)

text \<open>
  The loop over elements that all run through, and the loop stopped by the first element
  that raises.
\<close>

lemma fill_roster_storable:
  "list_all storable items \<Longrightarrow>
   fill_roster m dids items =
     (m ++ latest_record items, Inr (dids @ filter truthy (map platform_id_of items)))"
proof (induction items arbitrary: m dids)
  case Nil
  show ?case by (simp add: latest_record_Nil)
next
  case (Cons a rest)
  from Cons.prems obtain author where a: "a = JObj author"
    by (cases a) (simp_all add: storable_def)
  from Cons.prems have rest: "list_all storable rest" by simp
  show ?case
  proof (cases "truthy (platform_id_of a)")
    case False
    then have "entry_key a = None" by (simp add: entry_key_def)
    with False a Cons.IH[OF rest] show ?thesis
      by (simp add: latest_record_skip platform_id_of_def)
  next
    case True
    with Cons.prems a obtain k where k: "py_hashkey (platform_id_of a) = Inr k"
      by (auto simp: storable_def split: sum.splits)
    with True have ek: "entry_key a = Some k" by (simp add: entry_key_def)
    have step: "fill_roster m dids (a # rest) =
                fill_roster (m(k \<mapsto> record_of a)) (dids @ [platform_id_of a]) rest"
      using True k by (simp add: a platform_id_of_def record_of_def)
    have pid: "filter truthy (map platform_id_of (a # rest)) =
               platform_id_of a # filter truthy (map platform_id_of rest)"
      using True by simp
    show ?thesis
      unfolding step pid latest_record_store[OF ek]
        Cons.IH[OF rest, of "m(k \<mapsto> record_of a)" "dids @ [platform_id_of a]"]
      by simp
  qed
qed

lemma fill_roster_stops:
  "\<not> list_all storable items \<Longrightarrow>
   \<exists>e. (e = AttributeError \<or> e = TypeError) \<and>
       fill_roster m dids items = (m ++ latest_record (takeWhile storable items), Inl e)"
proof (induction items arbitrary: m dids)
  case Nil
  then show ?case by simp
next
  case (Cons a rest)
  show ?case
  proof (cases "storable a")
    case False
    then show ?thesis
      by (cases a)
         (auto simp: storable_def latest_record_Nil platform_id_of_def
            split: sum.splits if_splits dest: py_hashkey_raises)
  next
    case st: True
    then obtain author where a: "a = JObj author"
      by (cases a) (simp_all add: storable_def)
    from st Cons.prems have rest: "\<not> list_all storable rest" by simp
    show ?thesis
    proof (cases "truthy (platform_id_of a)")
      case False
      then have "entry_key a = None" by (simp add: entry_key_def)
      with False a st Cons.IH[OF rest, of m dids] show ?thesis
        by (simp add: latest_record_skip platform_id_of_def)
    next
      case True
      with st a obtain k where k: "py_hashkey (platform_id_of a) = Inr k"
        by (auto simp: storable_def split: sum.splits)
      with True have ek: "entry_key a = Some k" by (simp add: entry_key_def)
      have step: "fill_roster m dids (a # rest) =
                  fill_roster (m(k \<mapsto> record_of a)) (dids @ [platform_id_of a]) rest"
        using True k by (simp add: a platform_id_of_def record_of_def)
      have tw: "takeWhile storable (a # rest) = a # takeWhile storable rest"
        using st by simp
      from Cons.IH[OF rest, of "m(k \<mapsto> record_of a)" "dids @ [platform_id_of a]"]
      show ?thesis
        unfolding step tw latest_record_store[OF ek] .
    qed
  qed
qed

text \<open>Every record of \<open>latest_record\<close> comes from an element with that key.\<close>

lemma latest_record_source:
  "latest_record items k = Some r \<Longrightarrow> \<exists>a \<in> set items. entry_key a = Some k \<and> record_of a = r"
proof -
  assume l: "latest_record items k = Some r"
  let ?f = "filter (\<lambda>a. entry_key a = Some k) items"
  from l have ne: "?f \<noteq> []" and r: "r = record_of (last ?f)"
    by (auto simp: latest_record_def split: list.splits)
  from ne have "last ?f \<in> set ?f" by (rule last_in_set)
  with r show ?thesis by auto
qed

text \<open>
  What one element does to the loop does not depend on the elements after it: it goes
  on with some roster and key list, or it stops.
\<close>

lemma fill_roster_head:
  "(\<exists>m' dids'. \<forall>zs. fill_roster m dids (x # zs) = fill_roster m' dids' zs)
   \<or> (\<exists>e. \<forall>zs. fill_roster m dids (x # zs) = (m, Inl e))"
proof (cases x)
  case (JObj author)
  show ?thesis
  proof (cases "truthy (dict_get author ''platform_id'' JNull)")
    case False
    with JObj have "\<forall>zs. fill_roster m dids (x # zs) = fill_roster m dids zs" by simp
    then show ?thesis by blast
  next
    case True
    show ?thesis
    proof (cases "py_hashkey (dict_get author ''platform_id'' JNull)")
      case (Inl e)
      with True JObj have "\<forall>zs. fill_roster m dids (x # zs) = (m, Inl e)" by simp
      then show ?thesis by blast
    next
      case (Inr k)
      with True JObj have "\<forall>zs. fill_roster m dids (x # zs) =
          fill_roster (m(k \<mapsto> author_record author))
            (dids @ [dict_get author ''platform_id'' JNull]) zs"
        by simp
      then show ?thesis by blast
    qed
  qed
qed auto

lemma fill_roster_skip:
  assumes "map_of author ''platform_id'' = None \<or> map_of author ''platform_id'' = Some (JStr [])"
  shows "fill_roster m dids (xs @ JObj author # ys) = fill_roster m dids (xs @ ys)"
proof (induction xs arbitrary: m dids)
  case Nil
  from assms show ?case by (auto simp: dict_get_def)
next
  case (Cons x xs)
  from fill_roster_head[of m dids x] show ?case
  proof
    assume "\<exists>m' dids'. \<forall>zs. fill_roster m dids (x # zs) = fill_roster m' dids' zs"
    then obtain m' dids' where h: "\<And>zs. fill_roster m dids (x # zs) = fill_roster m' dids' zs"
      by blast
    have "fill_roster m dids ((x # xs) @ JObj author # ys) =
          fill_roster m' dids' (xs @ JObj author # ys)"
      by (simp only: append_Cons h)
    also have "\<dots> = fill_roster m' dids' (xs @ ys)" by (rule Cons.IH)
    also have "\<dots> = fill_roster m dids ((x # xs) @ ys)" by (simp only: append_Cons h)
    finally show ?thesis .
  next
    assume "\<exists>e. \<forall>zs. fill_roster m dids (x # zs) = (m, Inl e)"
    then obtain e where h: "\<And>zs. fill_roster m dids (x # zs) = (m, Inl e)" by blast
    show ?thesis by (simp only: append_Cons h)
  qed
qed

lemma latest_record_alt:
  "latest_record items k =
     (if filter (\<lambda>a. entry_key a = Some k) items = [] then None
      else Some (record_of (last (filter (\<lambda>a. entry_key a = Some k) items))))"
  by (simp add: latest_record_def split: list.splits)

lemma latest_record_last:
  assumes "entry_key b = Some k" and "\<forall>z \<in> set zs. entry_key z \<noteq> Some k"
  shows "latest_record (ys @ b # zs) k = Some (record_of b)"
proof -
  from assms(2) have "filter (\<lambda>a. entry_key a = Some k) zs = []"
    by (simp add: filter_empty_conv)
  with assms(1) show ?thesis
    by (simp add: latest_record_alt)
qed

text \<open>The function on a non-empty array.\<close>

lemma fetch_array:
  assumes "items \<noteq> []"
  shows "fetch_subscribed_authors prior (ResponseJson (JArr items)) =
           (if list_all storable items then
              (latest_record items,
               [Log INFO ''Fetching authors from API'', Log INFO ''Successfully fetched authors.''],
               Inr (filter truthy (map platform_id_of items)))
            else
              (latest_record (takeWhile storable items),
               [Log INFO ''Fetching authors from API'',
                Log ERROR ''An unexpected error occurred during author fetch''],
               Inr []))"
proof (cases "list_all storable items")
  case True
  from fill_roster_storable[OF True, of Map.empty "[]"] assms True show ?thesis
    by (simp add: fetch_subscribed_authors_def fetch_body_def)
next
  case False
  from fill_roster_stops[OF False, of Map.empty "[]"] obtain e where
    e: "e = AttributeError \<or> e = TypeError"
    and f: "fill_roster Map.empty [] items = (latest_record (takeWhile storable items), Inl e)"
    by auto
  from e f assms False show ?thesis
    by (auto simp: fetch_subscribed_authors_def fetch_body_def is_Exception_def)
qed

text \<open>
  C10, as the code has it. For every answer that is an array: the empty array leaves the
  roster as it was and returns the empty list. When all elements run through the loop,
  the returned key list is the list of the truthy platform ids in order, one per element
  (so a key occurs as often as elements carry it), and the roster holds for each key the
  record of the last element stored under it. When an element raises, the function
  returns the empty list, whatever keys the loop had collected, and the roster holds, for
  each key, the record of the last element stored under it before the first element that
  raises. In every case an element whose platform id is absent or the empty string
  changes neither the roster nor the key list of the loop, wherever it stands; and the
  record of an element is the one found under its key when no later element has the same
  key, whatever came before it.
\<close>

theorem roster_entries_filtered_last_wins:
  "fetch_subscribed_authors prior (ResponseJson (JArr items)) =
     (if items = [] then
        (prior,
         [Log INFO ''Fetching authors from API'', Log WARNING ''API returned no authors.''],
         Inr [])
      else if list_all storable items then
        (latest_record items,
         [Log INFO ''Fetching authors from API'', Log INFO ''Successfully fetched authors.''],
         Inr (filter truthy (map platform_id_of items)))
      else
        (latest_record (takeWhile storable items),
         [Log INFO ''Fetching authors from API'',
          Log ERROR ''An unexpected error occurred during author fetch''],
         Inr []))
   \<and> (map_of author ''platform_id'' = None \<or> map_of author ''platform_id'' = Some (JStr []) \<longrightarrow>
        fill_roster m dids (xs @ JObj author # ys) = fill_roster m dids (xs @ ys))
   \<and> (entry_key b = Some k \<and> (\<forall>z \<in> set zs. entry_key z \<noteq> Some k) \<longrightarrow>
        latest_record (ys @ b # zs) k = Some (record_of b))"
proof -
  have "fetch_subscribed_authors prior (ResponseJson (JArr [])) =
          (prior,
           [Log INFO ''Fetching authors from API'', Log WARNING ''API returned no authors.''],
           Inr [])"
    by (simp add: fetch_subscribed_authors_def fetch_body_def)
  with fetch_array[of items prior] fill_roster_skip[of author m dids xs ys]
    latest_record_last[of b k zs ys]
  show ?thesis by auto
qed

text \<open>
  Two elements for \<open>did:abc\<close> with an element without platform id and one with an
  empty platform id between them; and two elements for \<open>did:dup\<close> followed by a null
  element.
\<close>

theorem roster_entries_filtered_last_wins_witness:
  "fetch_subscribed_authors scenario_roster (ResponseJson (JArr repeated_answer)) =
     (latest_record repeated_answer,
      [Log INFO ''Fetching authors from API'', Log INFO ''Successfully fetched authors.''],
      Inr [JStr ''did:abc'', JStr ''did:abc''])
   \<and> latest_record repeated_answer (KStr ''did:abc'') =
       Some [(''id'', JInt 2), (''name'', JStr ''B''), (''author_context'', JNull)]
   \<and> latest_record repeated_answer KNone = None
   \<and> latest_record repeated_answer (KStr []) = None
   \<and> fill_roster scenario_roster []
       ([] @ JObj [(''id'', JInt 9), (''name'', JStr ''nobody'')] # []) =
     fill_roster scenario_roster [] ([] @ [])"
  using roster_entries_filtered_last_wins[of scenario_roster repeated_answer
      "[(''id'', JInt 9), (''name'', JStr ''nobody'')]" scenario_roster "[]" "[]" "[]"
      "JObj [(''platform_id'', JStr ''did:abc''), (''id'', JInt 2), (''name'', JStr ''B'')]"
      "KStr ''did:abc''" "[]"]
  by (simp add: repeated_answer_def storable_def platform_id_of_def dict_get_def
      latest_record_def entry_key_def record_of_def author_record_def)

text \<open>
  C10, as the specification states it, fails. In the answer with \<open>did:dup\<close> twice and
  then a null element, the later element's record is stored under the key, and yet the
  returned key list is empty: it does not hold the key once per occurrence.
\<close>

theorem repeated_key_not_returned_counterexample:
  "fst (fetch_subscribed_authors scenario_roster (ResponseJson (JArr repeated_broken_answer)))
       (KStr ''did:dup'') =
     Some [(''id'', JInt 2), (''name'', JStr ''B''), (''author_context'', JNull)]
   \<and> snd (snd (fetch_subscribed_authors scenario_roster
        (ResponseJson (JArr repeated_broken_answer)))) = Inr []
   \<and> filter truthy (map platform_id_of repeated_broken_answer) =
       [JStr ''did:dup'', JStr ''did:dup'']"
  by (simp add: fetch_subscribed_authors_def fetch_body_def repeated_broken_answer_def
      platform_id_of_def dict_get_def author_record_def is_Exception_def)

text \<open>
  C3, as the code has it. A call leaves the roster as it was, and returns the empty
  list, when the request, the status check or the decoding raises an \<open>Exception\<close>, and
  when the decoded body is falsy (the empty array). For a non-empty array the previous
  roster is dropped: the roster afterwards holds exactly the records of the elements
  before the first element that raises (of all elements when none raises), the last
  element of a key winning, so every key present comes from an element of this answer;
  the returned list is the list of the truthy platform ids when no element raises and
  empty otherwise.
\<close>

theorem roster_load_cases:
  "(is_Exception e \<longrightarrow>
      fst (fetch_subscribed_authors prior (ResponseRaises e)) = prior
      \<and> snd (snd (fetch_subscribed_authors prior (ResponseRaises e))) = Inr [])
   \<and> (\<not> truthy authors \<longrightarrow>
      fst (fetch_subscribed_authors prior (ResponseJson authors)) = prior
      \<and> snd (snd (fetch_subscribed_authors prior (ResponseJson authors))) = Inr [])
   \<and> (items \<noteq> [] \<longrightarrow>
      fst (fetch_subscribed_authors prior (ResponseJson (JArr items))) =
        latest_record (takeWhile storable items)
      \<and> snd (snd (fetch_subscribed_authors prior (ResponseJson (JArr items)))) =
        Inr (if list_all storable items then filter truthy (map platform_id_of items) else [])
      \<and> (\<forall>k r. fst (fetch_subscribed_authors prior (ResponseJson (JArr items))) k = Some r \<longrightarrow>
            (\<exists>a \<in> set items. entry_key a = Some k \<and> record_of a = r)))"
proof -
  have 1: "is_Exception e \<Longrightarrow>
      fst (fetch_subscribed_authors prior (ResponseRaises e)) = prior
      \<and> snd (snd (fetch_subscribed_authors prior (ResponseRaises e))) = Inr []"
    by (simp add: fetch_subscribed_authors_def fetch_body_def)
  have 2: "\<not> truthy authors \<Longrightarrow>
      fst (fetch_subscribed_authors prior (ResponseJson authors)) = prior
      \<and> snd (snd (fetch_subscribed_authors prior (ResponseJson authors))) = Inr []"
    by (simp add: fetch_subscribed_authors_def fetch_body_def)
  have 3: "fst (fetch_subscribed_authors prior (ResponseJson (JArr items))) =
        latest_record (takeWhile storable items)
      \<and> snd (snd (fetch_subscribed_authors prior (ResponseJson (JArr items)))) =
        Inr (if list_all storable items then filter truthy (map platform_id_of items) else [])"
    if "items \<noteq> []"
  proof (cases "list_all storable items")
    case True
    then have tw: "takeWhile storable items = items"
      by (simp add: takeWhile_eq_all_conv list_all_iff)
    from True fetch_array[OF that, of prior] show ?thesis
      unfolding tw by simp
  next
    case False
    with fetch_array[OF that, of prior] show ?thesis by simp
  qed
  have 4: "\<exists>a \<in> set items. entry_key a = Some k \<and> record_of a = r"
    if "items \<noteq> []"
      and "fst (fetch_subscribed_authors prior (ResponseJson (JArr items))) k = Some r" for k r
  proof -
    from that 3 have "latest_record (takeWhile storable items) k = Some r" by simp
    from latest_record_source[OF this] obtain a where
      "a \<in> set (takeWhile storable items)" "entry_key a = Some k" "record_of a = r" by blast
    then show ?thesis by (auto dest: set_takeWhileD)
  qed
  from 1 2 3 4 show ?thesis by blast
qed

text \<open>
  A failed request, an empty array, and an answer with a null element in the middle, each
  on the roster of the scenario.
\<close>

theorem roster_load_cases_witness:
  "fst (fetch_subscribed_authors scenario_roster (ResponseRaises RequestError)) = scenario_roster
   \<and> fst (fetch_subscribed_authors scenario_roster (ResponseJson (JArr []))) = scenario_roster
   \<and> fst (fetch_subscribed_authors scenario_roster (ResponseJson (JArr broken_answer)))
       (KStr ''did:new'') =
       Some [(''id'', JInt 7), (''name'', JStr ''N''), (''author_context'', JNull)]
   \<and> snd (snd (fetch_subscribed_authors scenario_roster (ResponseJson (JArr broken_answer)))) =
       Inr []"
  using roster_load_cases[of RequestError scenario_roster "JArr []" broken_answer]
  by (simp add: is_Exception_def broken_answer_def storable_def platform_id_of_def dict_get_def
      latest_record_def entry_key_def record_of_def author_record_def)

text \<open>
  C3, as the specification states it, fails. The answer with a null element makes the
  load fail (it returns the empty list), and yet the roster has changed: the author of
  the scenario is gone, the element before the null one is stored, and the element after
  it, which the same answer carried, is not. The same happens in a run of \<open>main\<close> from
  the empty roster.
\<close>

theorem roster_load_atomic_counterexample:
  "snd (snd (fetch_subscribed_authors scenario_roster (ResponseJson (JArr broken_answer)))) = Inr []
   \<and> scenario_roster (KStr ''did:abc'') =
       Some [(''id'', JInt 42), (''name'', JStr ''A''), (''author_context'', JNull)]
   \<and> fst (fetch_subscribed_authors scenario_roster (ResponseJson (JArr broken_answer)))
       (KStr ''did:abc'') = None
   \<and> fst (fetch_subscribed_authors scenario_roster (ResponseJson (JArr broken_answer)))
       (KStr ''did:new'') =
       Some [(''id'', JInt 7), (''name'', JStr ''N''), (''author_context'', JNull)]
   \<and> fst (fetch_subscribed_authors scenario_roster (ResponseJson (JArr broken_answer)))
       (KStr ''did:late'') = None
   \<and> latest_record broken_answer (KStr ''did:late'') =
       Some [(''id'', JInt 8), (''name'', JStr ''L''), (''author_context'', JNull)]
   \<and> fst (main (ResponseJson (JArr broken_answer)) []) (KStr ''did:new'') =
       Some [(''id'', JInt 7), (''name'', JStr ''N''), (''author_context'', JNull)]
   \<and> fst (main (ResponseJson (JArr broken_answer)) []) (KStr ''did:late'') = None"
proof -
  have ne: "broken_answer \<noteq> []" by (simp add: broken_answer_def)
  have bad: "\<not> list_all storable broken_answer"
    by (simp add: broken_answer_def storable_def)
  have f: "fetch_subscribed_authors prior (ResponseJson (JArr broken_answer)) =
             (latest_record (takeWhile storable broken_answer),
              [Log INFO ''Fetching authors from API'',
               Log ERROR ''An unexpected error occurred during author fetch''],
              Inr [])" for prior
    using fetch_array[OF ne, of prior] bad by simp
  have l: "latest_record (takeWhile storable broken_answer) (KStr ''did:abc'') = None"
    "latest_record (takeWhile storable broken_answer) (KStr ''did:new'') =
       Some [(''id'', JInt 7), (''name'', JStr ''N''), (''author_context'', JNull)]"
    "latest_record (takeWhile storable broken_answer) (KStr ''did:late'') = None"
    "latest_record broken_answer (KStr ''did:late'') =
       Some [(''id'', JInt 8), (''name'', JStr ''L''), (''author_context'', JNull)]"
    by (simp_all add: broken_answer_def storable_def platform_id_of_def dict_get_def
        latest_record_def entry_key_def record_of_def author_record_def)
  have s: "scenario_roster (KStr ''did:abc'') =
       Some [(''id'', JInt 42), (''name'', JStr ''A''), (''author_context'', JNull)]"
    by (simp add: scenario_roster_def)
  have m: "fst (main (ResponseJson (JArr broken_answer)) []) =
             latest_record (takeWhile storable broken_answer)"
    by (simp add: main_def f websocket_client_def)
  show ?thesis
    by (simp add: f l s m)
qed

end
